theory Spec2Isabelle
  imports Complex_Main
begin

section \<open>Data model\<close>

text \<open>
  The values the importer handles: a CSV cell is a Python string, or None where
  csv.DictReader fills a short row; a user record is a dict of such cells. The same
  datatype stands for the argument and the result of the json module.
\<close>

datatype json =
    JNull
  | JInt int
  | JStr string
  | JObj "(string \<times> json) list"

type_synonym row = "string \<rightharpoonup> json"

type_synonym headers = "string \<rightharpoonup> string"

type_synonym kwargs = "string \<rightharpoonup> string"

text \<open>
  Instances of Python's Exception that the program meets. The first three are subclasses
  of requests.RequestException. Interrupts of the interpreter (KeyboardInterrupt) are
  outside the model; SystemExit appears only in the outcome of main.
\<close>

datatype py_exception =
    ConnectionError
  | Timeout
  | HTTPError int
  | TypeError string
  | KeyError string
  | FileNotFoundError string
  | SalesforceAuthenticationFailed
  | RuntimeError string

fun is_RequestException :: "py_exception \<Rightarrow> bool" where
  "is_RequestException ConnectionError = True"
| "is_RequestException Timeout = True"
| "is_RequestException (HTTPError _) = True"
| "is_RequestException _ = False"

record response =
  status_code :: int
  resp_text :: string

record http_request =
  http_method :: string
  url :: string
  headers :: headers
  timeout :: real
  kwargs :: kwargs

datatype http_outcome = Responded response | Raised py_exception

record settings =
  SF_USER :: string
  SF_PASSWORD :: string
  SF_DOMAIN :: string
  SF_TOKEN :: string
  SF_API_BASE_URL :: string

text \<open>
  What the program does not contain and only calls: the Salesforce login of
  simple_salesforce (its session headers, or the exception it raises), the network behind
  requests.request (given the requests sent so far and the current one), the file system
  as csv.DictReader presents it (the rows of a file), the console, the ENV variable and
  the json module.
\<close>

record env =
  settings :: settings
  ENV :: "string option"
  Salesforce :: "string \<Rightarrow> string \<Rightarrow> string \<Rightarrow> string \<Rightarrow> py_exception + headers"
  server :: "http_request list \<Rightarrow> http_request \<Rightarrow> http_outcome"
  files :: "string \<rightharpoonup> row list"
  console_input :: string
  json_dumps :: "json \<Rightarrow> string"
  json_loads :: "string \<Rightarrow> json option"

datatype log_record =
    Info_request http_request
  | Error_request string py_exception
  | Error_unexpected string py_exception

datatype line =
    Print_env string
  | Print_aborted
  | Print_started
  | Successfully_created json response
  | Failed_to_create json py_exception

text \<open>
  The observable effects: the requests handed to requests.request in order, the lines
  printed, the log records, the logins attempted and the files opened.
\<close>

record world =
  wire :: "http_request list"
  stdout :: "line list"
  logs :: "log_record list"
  logins :: nat
  opened :: "string list"

record client =
  client_url :: string
  base_headers :: headers

text \<open>
  A method call returns its value (or the exception that leaves it), the client object
  after the call and the world after the call.
\<close>

record 'a ret =
  result :: "py_exception + 'a"
  self_after :: client
  world_after :: world

section \<open>utils/salesforce_api_client.py\<close>

definition DEFAULT_TIMEOUT_SECONDS :: real where
  "DEFAULT_TIMEOUT_SECONDS = 30"

definition HTTP_500_INTERNAL_SERVER_ERROR :: int where
  "HTTP_500_INTERNAL_SERVER_ERROR = 500"

definition init_client :: "env \<Rightarrow> py_exception + headers" where
  "init_client e =
     Salesforce e (SF_USER (settings e)) (SF_PASSWORD (settings e))
       (SF_TOKEN (settings e)) (SF_DOMAIN (settings e))"


definition lstrip :: "char \<Rightarrow> string \<Rightarrow> string" where
  "lstrip c s = dropWhile (\<lambda>x. x = c) s"

text \<open>
  The constructor: the url, then the login (which may raise), then the optional
  overriding headers. An empty dict of additional headers is falsy and adds nothing.
\<close>

definition SalesforceRestApiClient ::
  "env \<Rightarrow> string \<Rightarrow> headers option \<Rightarrow> world \<Rightarrow> (py_exception + client) \<times> world" where
  "SalesforceRestApiClient e path additional_headers w =
     (let u = SF_API_BASE_URL (settings e) @ ''/'' @ lstrip (CHR ''/'') path;
          w1 = w\<lparr>logins := Suc (logins w)\<rparr>
      in case init_client e of
           Inl exc \<Rightarrow> (Inl exc, w1)
         | Inr session \<Rightarrow>
             (let bh = [''Content-Type'' \<mapsto> ''application/json'', ''Accept'' \<mapsto> ''*/*'']
                         ++ session
              in (Inr \<lparr>client_url = u,
                        base_headers = (case additional_headers of
                                          None \<Rightarrow> bh
                                        | Some h \<Rightarrow> bh ++ h)\<rparr>, w1)))"

text \<open>
  response.raise_for_status() of the requests library: it raises HTTPError for a client
  error (400 to 499) and for a server error (500 to 599), and returns otherwise.
\<close>

definition raise_for_status :: "response \<Rightarrow> py_exception + unit" where
  "raise_for_status r =
     (if 400 \<le> status_code r \<and> status_code r < 600
      then Inl (HTTPError (status_code r)) else Inr ())"

text \<open>
  The call requests.request(method=.., url=.., headers=.., timeout=.., **kwargs): Python
  raises TypeError before the callee runs when kwargs repeats one of the keywords written
  out in the call; otherwise the request goes out and the network answers or fails.
\<close>

definition explicit_keywords :: "string list" where
  "explicit_keywords = [''method'', ''url'', ''headers'', ''timeout'']"

definition requests_request ::
  "env \<Rightarrow> http_request \<Rightarrow> world \<Rightarrow> (py_exception + response) \<times> world" where
  "requests_request e req w =
     (if list_ex (\<lambda>k. kwargs req k \<noteq> None) explicit_keywords
      then (Inl (TypeError ''multiple values for keyword argument''), w)
      else (case server e (wire w) req of
              Raised exc \<Rightarrow> Inl exc
            | Responded r \<Rightarrow> Inr r,
            w\<lparr>wire := wire w @ [req]\<rparr>))"

definition error_response :: response where
  "error_response = \<lparr>status_code = HTTP_500_INTERNAL_SERVER_ERROR, resp_text = []\<rparr>"

text \<open>
  The request as send_request puts it together: the call-time headers merged over the
  base headers in a fresh dict, and the timeout, 30 seconds unless given.
\<close>

definition req_info ::
  "client \<Rightarrow> string \<Rightarrow> headers option \<Rightarrow> real option \<Rightarrow> kwargs \<Rightarrow> http_request" where
  "req_info self meth hdrs tmo kw =
     (let merged_headers = base_headers self ++ (case hdrs of None \<Rightarrow> Map.empty | Some h \<Rightarrow> h)
      in \<lparr>http_method = meth, url = client_url self, headers = merged_headers,
          timeout = (case tmo of None \<Rightarrow> DEFAULT_TIMEOUT_SECONDS | Some t \<Rightarrow> t),
          kwargs = kw\<rparr>)"

text \<open>
  send_request: the log record, then the try block (the request and raise_for_status),
  then the two except clauses, which differ in the log record only.
\<close>

definition send_request ::
  "env \<Rightarrow> client \<Rightarrow> string \<Rightarrow> headers option \<Rightarrow> real option \<Rightarrow> kwargs \<Rightarrow> world
     \<Rightarrow> response ret" where
  "send_request e self meth hdrs tmo kw w =
     (let req = req_info self meth hdrs tmo kw;
          w1 = w\<lparr>logs := logs w @ [Info_request req]\<rparr>;
          sent = requests_request e req w1;
          w2 = snd sent;
          body = (case fst sent of
                    Inl exc \<Rightarrow> Inl exc
                  | Inr r \<Rightarrow> (case raise_for_status r of
                                Inl exc \<Rightarrow> Inl exc
                              | Inr _ \<Rightarrow> Inr r))
      in case body of
           Inr r \<Rightarrow> \<lparr>result = Inr r, self_after = self, world_after = w2\<rparr>
         | Inl exc \<Rightarrow>
             (if is_RequestException exc
              then \<lparr>result = Inr error_response, self_after = self,
                    world_after = w2\<lparr>logs := logs w2 @ [Error_request (client_url self) exc]\<rparr>\<rparr>
              else \<lparr>result = Inr error_response, self_after = self,
                    world_after = w2\<lparr>logs := logs w2 @ [Error_unexpected (client_url self) exc]\<rparr>\<rparr>))"

text \<open>
  get, post and patch forward their keyword arguments: headers and timeout bind to the
  parameters of send_request, the rest stays in kwargs. A keyword named method collides
  with the positional argument, and that TypeError leaves the wrapper.
\<close>

definition forward ::
  "env \<Rightarrow> client \<Rightarrow> string \<Rightarrow> headers option \<Rightarrow> real option \<Rightarrow> kwargs \<Rightarrow> world
     \<Rightarrow> response ret" where
  "forward e self meth hdrs tmo kw w =
     (if kw ''method'' \<noteq> None
      then \<lparr>result = Inl (TypeError ''multiple values for argument method''),
            self_after = self, world_after = w\<rparr>
      else send_request e self meth hdrs tmo kw w)"

definition get ::
  "env \<Rightarrow> client \<Rightarrow> headers option \<Rightarrow> real option \<Rightarrow> kwargs \<Rightarrow> world \<Rightarrow> response ret" where
  "get e self hdrs tmo kw w = forward e self ''GET'' hdrs tmo kw w"

definition post ::
  "env \<Rightarrow> client \<Rightarrow> headers option \<Rightarrow> real option \<Rightarrow> kwargs \<Rightarrow> world \<Rightarrow> response ret" where
  "post e self hdrs tmo kw w = forward e self ''POST'' hdrs tmo kw w"

definition patch ::
  "env \<Rightarrow> client \<Rightarrow> headers option \<Rightarrow> real option \<Rightarrow> kwargs \<Rightarrow> world \<Rightarrow> response ret" where
  "patch e self hdrs tmo kw w = forward e self ''PATCH'' hdrs tmo kw w"

text \<open>
  str(n) of a length: the decimal digits. Strings are byte lists here, and json.dumps
  escapes every non-ASCII character by default, so len counts the bytes of its result.
\<close>

fun str_nat :: "nat \<Rightarrow> string" where
  "str_nat n =
     (if n < 10 then [char_of (48 + n)]
      else str_nat (n div 10) @ [char_of (48 + n mod 10)])"

declare str_nat.simps [simp del]

definition composite_request :: "env \<Rightarrow> client \<Rightarrow> json \<Rightarrow> world \<Rightarrow> response ret" where
  "composite_request e self composite_data w =
     (let request_data = json_dumps e composite_data;
          composite_url = SF_API_BASE_URL (settings e) @ ''/services/data/v52.0/composite''
      in post e self (Some [''Content-Length'' \<mapsto> str_nat (length request_data)]) None
           [''url'' \<mapsto> composite_url, ''data'' \<mapsto> request_data] w)"

section \<open>functions/create_users.py\<close>

definition required_columns :: "string list" where
  "required_columns =
     [''FirstName'', ''LastName'', ''Email'', ''Username'', ''Alias'', ''TimeZoneSidKey'',
      ''LocaleSidKey'', ''EmailEncodingKey'', ''LanguageLocaleKey'', ''ProfileId'']"

text \<open>
  The dict display evaluates row[k] for the columns in the order written; the first
  missing key raises KeyError and the rest is not evaluated.
\<close>

fun lookup_columns :: "row \<Rightarrow> string list \<Rightarrow> py_exception + (string \<times> json) list" where
  "lookup_columns row [] = Inr []"
| "lookup_columns row (k # ks) =
     (case row k of
        None \<Rightarrow> Inl (KeyError k)
      | Some v \<Rightarrow>
          (case lookup_columns row ks of
             Inl exc \<Rightarrow> Inl exc
           | Inr kvs \<Rightarrow> Inr ((k, v) # kvs)))"

definition user_record :: "row \<Rightarrow> py_exception + json" where
  "user_record row =
     (case lookup_columns row required_columns of
        Inl exc \<Rightarrow> Inl exc
      | Inr kvs \<Rightarrow> Inr (JObj kvs))"

definition row_get :: "row \<Rightarrow> string \<Rightarrow> json \<Rightarrow> json" where
  "row_get row k d = (case row k of None \<Rightarrow> d | Some v \<Rightarrow> v)"

text \<open>The except branch of the loop body.\<close>

definition print_failed :: "row \<Rightarrow> py_exception \<Rightarrow> world \<Rightarrow> world" where
  "print_failed row exc w =
     w\<lparr>stdout := stdout w @ [Failed_to_create (row_get row ''Username'' (JStr ''No Username'')) exc]\<rparr>"

text \<open>
  The loop body: the try block builds the record, posts it and prints the success line
  with whatever post returned; any exception raised inside goes to the except branch.
\<close>

definition process_row :: "env \<Rightarrow> row \<Rightarrow> client \<times> world \<Rightarrow> client \<times> world" where
  "process_row e row sw =
     (case user_record row of
        Inl exc \<Rightarrow> (fst sw, print_failed row exc (snd sw))
      | Inr rec \<Rightarrow>
          (let r = post e (fst sw) None None [''data'' \<mapsto> json_dumps e rec] (snd sw);
               sf = self_after r;
               w = world_after r
           in case result r of
                Inl exc \<Rightarrow> (sf, print_failed row exc w)
              | Inr res \<Rightarrow>
                  (case row ''Username'' of
                     None \<Rightarrow> (sf, print_failed row (KeyError ''Username'') w)
                   | Some u \<Rightarrow> (sf, w\<lparr>stdout := stdout w @ [Successfully_created u res]\<rparr>))))"

fun for_rows :: "env \<Rightarrow> row list \<Rightarrow> client \<times> world \<Rightarrow> client \<times> world" where
  "for_rows e [] sw = sw"
| "for_rows e (row # rows) sw = for_rows e rows (process_row e row sw)"

definition create_users_from_csv ::
  "env \<Rightarrow> string \<Rightarrow> world \<Rightarrow> (py_exception + unit) \<times> world" where
  "create_users_from_csv e csv_file_path w =
     (let made = SalesforceRestApiClient e ''/services/data/v50.0/sobjects/User'' None w
      in case fst made of
           Inl exc \<Rightarrow> (Inl exc, snd made)
         | Inr sf \<Rightarrow>
             (let w1 = (snd made)\<lparr>opened := opened (snd made) @ [csv_file_path]\<rparr>
              in case files e csv_file_path of
                   None \<Rightarrow> (Inl (FileNotFoundError csv_file_path), w1)
                 | Some rows \<Rightarrow> (Inr (), snd (for_rows e rows (sf, w1)))))"

section \<open>main.py\<close>

text \<open>
  str.lower() on the bytes of the answer: the ASCII capitals move to their small
  letters, every other byte stays.
\<close>

definition lower_char :: "char \<Rightarrow> char" where
  "lower_char c =
     (case map_of (zip ''ABCDEFGHIJKLMNOPQRSTUVWXYZ'' ''abcdefghijklmnopqrstuvwxyz'') c of
        None \<Rightarrow> c
      | Some l \<Rightarrow> l)"

definition lower :: "string \<Rightarrow> string" where
  "lower s = map lower_char s"

text \<open>The path of the sheet, src/files/<name>.csv, the name in UTF-8.\<close>

definition csv_path :: string where
  "csv_path =
     ''src/files/'' @
     map char_of [227, 131, 166, 227, 131, 188, 227, 130, 182, 227, 131, 188, 228, 189, 156,
                  230, 136, 144, 227, 130, 183, 227, 131, 188, 227, 131, 136 :: nat] @
     ''.csv''"

text \<open>
  main: the settings are taken as loaded, the environment name is ENV or "dev", and the
  answer typed at the prompt is the console input of the environment. sys.exit(1) is the
  outcome SystemExit 1; an exception that leaves the importer leaves main as well.
\<close>

datatype exit = Returned | SystemExit int | Uncaught py_exception

definition main :: "env \<Rightarrow> world \<Rightarrow> exit \<times> world" where
  "main e w =
     (let env_name = (case ENV e of None \<Rightarrow> ''dev'' | Some v \<Rightarrow> v);
          w1 = w\<lparr>stdout := stdout w @ [Print_env env_name]\<rparr>;
          run = (let w2 = w1\<lparr>stdout := stdout w1 @ [Print_started]\<rparr>;
                     ran = create_users_from_csv e csv_path w2
                 in case fst ran of
                      Inl exc \<Rightarrow> (Uncaught exc, snd ran)
                    | Inr _ \<Rightarrow> (Returned, snd ran))
      in if env_name = ''prod''
         then (if \<not> List.member [''yes'', ''y''] (lower (console_input e))
               then (SystemExit 1, w1\<lparr>stdout := stdout w1 @ [Print_aborted]\<rparr>)
               else run)
         else run)"

section \<open>The requests the importer is expected to send\<close>

text \<open>
  The create call for one row: a POST to the client's url with the client's headers, the
  default timeout and the serialised record as data.
\<close>

definition record_of :: "row \<Rightarrow> json" where
  "record_of row = JObj (map (\<lambda>k. (k, row_get row k JNull)) required_columns)"

definition create_call :: "env \<Rightarrow> client \<Rightarrow> row \<Rightarrow> http_request" where
  "create_call e sf row =
     \<lparr>http_method = ''POST'', url = client_url sf, headers = base_headers sf,
      timeout = DEFAULT_TIMEOUT_SECONDS,
      kwargs = [''data'' \<mapsto> json_dumps e (record_of row)]\<rparr>"

section \<open>A concrete environment\<close>

text \<open>
  An environment to run the program in: a login that succeeds, a server that creates the
  first user, rejects the second request with status 400, times out on the third and
  answers 304 afterwards, and a sheet of three rows, the last without ProfileId.
\<close>

fun demo_dumps :: "json \<Rightarrow> string" and demo_items :: "(string \<times> json) list \<Rightarrow> string" where
  \<open>demo_dumps JNull = ''null''\<close>
| \<open>demo_dumps (JInt i) = (if i < 0 then ''-'' @ str_nat (nat (- i)) else str_nat (nat i))\<close>
| \<open>demo_dumps (JStr s) = ''"'' @ s @ ''"''\<close>
| \<open>demo_dumps (JObj kvs) = ''{'' @ demo_items kvs @ ''}''\<close>
| \<open>demo_items [] = []\<close>
| \<open>demo_items ((k, v) # kvs) =
     ''"'' @ k @ ''": '' @ demo_dumps v @ (if kvs = [] then [] else '', '' @ demo_items kvs)\<close>

definition demo_settings :: settings where
  "demo_settings =
     \<lparr>SF_USER = ''admin@example.com'', SF_PASSWORD = ''pw'', SF_DOMAIN = ''test'',
      SF_TOKEN = ''tok'', SF_API_BASE_URL = ''https://example.my.salesforce.com''\<rparr>"

definition demo_session :: headers where
  "demo_session = [''Authorization'' \<mapsto> ''Bearer 00D'']"

definition demo_server :: "http_request list \<Rightarrow> http_request \<Rightarrow> http_outcome" where
  "demo_server sent req =
     (if length sent = 0 then Responded \<lparr>status_code = 201, resp_text = ''{}''\<rparr>
      else if length sent = 1 then Responded \<lparr>status_code = 400, resp_text = ''[]''\<rparr>
      else if length sent = 2 then Raised Timeout
      else Responded \<lparr>status_code = 304, resp_text = []\<rparr>)"

definition demo_row :: "string \<Rightarrow> row" where
  "demo_row name k =
     (if k = ''Username'' then Some (JStr name)
      else if List.member required_columns k then Some (JStr ''x'')
      else None)"

definition demo_row_without :: "string \<Rightarrow> string \<Rightarrow> row" where
  "demo_row_without column name k = (if k = column then None else demo_row name k)"

definition demo_rows :: "row list" where
  "demo_rows = [demo_row ''alice'', demo_row ''bob'', demo_row_without ''ProfileId'' ''carol'']"

definition demo_env :: env where
  "demo_env =
     \<lparr>settings = demo_settings, ENV = Some ''prod'',
      Salesforce = (\<lambda>u p t d. Inr demo_session),
      server = demo_server,
      files = [csv_path \<mapsto> demo_rows],
      console_input = ''No'',
      json_dumps = demo_dumps,
      json_loads = (\<lambda>s. if s = ''{}'' then Some (JObj []) else None)\<rparr>"

definition demo_env_complete :: env where
  "demo_env_complete = demo_env\<lparr>files := [csv_path \<mapsto> [demo_row ''alice'', demo_row ''bob'']]\<rparr>"

definition demo_env_locked :: env where
  "demo_env_locked = demo_env\<lparr>Salesforce := (\<lambda>u p t d. Inl SalesforceAuthenticationFailed)\<rparr>"

definition demo_client :: client where
  "demo_client =
     \<lparr>client_url = ''https://example.my.salesforce.com/services/data/v50.0/sobjects/User'',
      base_headers = [''Content-Type'' \<mapsto> ''application/json'', ''Accept'' \<mapsto> ''*/*'']
                       ++ demo_session\<rparr>"

definition world0 :: world where
  "world0 = \<lparr>wire = [], stdout = [], logs = [], logins = 0, opened = []\<rparr>"

section \<open>Properties of the REST client\<close>

subsection \<open>Auxiliary facts\<close>

lemma kwargs_req_info [simp]: "kwargs (req_info self meth hdrs tmo kw) = kw"
  by (simp add: req_info_def)

lemma fst_requests_request:
  "fst (requests_request e req w) =
     (if list_ex (\<lambda>k. kwargs req k \<noteq> None) explicit_keywords
      then Inl (TypeError ''multiple values for keyword argument'')
      else (case server e (wire w) req of Raised exc \<Rightarrow> Inl exc | Responded r \<Rightarrow> Inr r))"
  by (simp add: requests_request_def)

lemma wire_requests_request:
  "wire (snd (requests_request e req w)) =
     (if list_ex (\<lambda>k. kwargs req k \<noteq> None) explicit_keywords then wire w else wire w @ [req])"
  by (simp add: requests_request_def)

lemma result_send_request:
  "result (send_request e self meth hdrs tmo kw w) =
     (if list_ex (\<lambda>k. kw k \<noteq> None) explicit_keywords then Inr error_response
      else (case server e (wire w) (req_info self meth hdrs tmo kw) of
              Raised exc \<Rightarrow> Inr error_response
            | Responded r \<Rightarrow>
                if 400 \<le> status_code r \<and> status_code r < 600 then Inr error_response else Inr r))"
  by (simp add: send_request_def Let_def raise_for_status_def fst_requests_request
           split: sum.splits http_outcome.splits)

lemma self_after_send_request:
  "self_after (send_request e self meth hdrs tmo kw w) = self"
  by (simp add: send_request_def Let_def split: sum.splits)

lemma wire_send_request:
  "wire (world_after (send_request e self meth hdrs tmo kw w)) =
     (if list_ex (\<lambda>k. kw k \<noteq> None) explicit_keywords then wire w
      else wire w @ [req_info self meth hdrs tmo kw])"
  by (simp add: send_request_def Let_def wire_requests_request split: sum.splits)

lemma quiet_requests_request:
  "stdout (snd (requests_request e req w)) = stdout w"
  "logins (snd (requests_request e req w)) = logins w"
  "opened (snd (requests_request e req w)) = opened w"
  by (simp_all add: requests_request_def)

lemma quiet_send_request:
  "stdout (world_after (send_request e self meth hdrs tmo kw w)) = stdout w"
  "logins (world_after (send_request e self meth hdrs tmo kw w)) = logins w"
  "opened (world_after (send_request e self meth hdrs tmo kw w)) = opened w"
  by (simp_all add: send_request_def Let_def quiet_requests_request split: sum.splits)

lemma self_after_forward:
  "self_after (forward e self meth hdrs tmo kw w) = self"
  by (simp add: forward_def self_after_send_request)

subsection \<open>send_request\<close>

text \<open>
  C3. For every method, headers, timeout and keyword arguments send_request returns a
  response and no exception leaves it. When the call of requests.request fails (the
  network raises, or Python rejects a repeated keyword), and when the server answers with
  a status from 400 to 599, the value is the synthetic response, whose status code is
  500. When the server answers with a status from 200 to 299, the value is that response.
\<close>

theorem send_request_never_raises:
  "(\<exists>r. result (send_request e self meth hdrs tmo kw w) = Inr r) \<and>
   status_code error_response = 500 \<and>
   (list_ex (\<lambda>k. kw k \<noteq> None) explicit_keywords \<longrightarrow>
      result (send_request e self meth hdrs tmo kw w) = Inr error_response) \<and>
   (server e (wire w) (req_info self meth hdrs tmo kw) = Raised exc \<longrightarrow>
      result (send_request e self meth hdrs tmo kw w) = Inr error_response) \<and>
   (server e (wire w) (req_info self meth hdrs tmo kw) = Responded r4 \<and>
      400 \<le> status_code r4 \<and> status_code r4 < 600 \<longrightarrow>
      result (send_request e self meth hdrs tmo kw w) = Inr error_response) \<and>
   (\<not> list_ex (\<lambda>k. kw k \<noteq> None) explicit_keywords \<and>
      server e (wire w) (req_info self meth hdrs tmo kw) = Responded r2 \<and>
      200 \<le> status_code r2 \<and> status_code r2 < 300 \<longrightarrow>
      result (send_request e self meth hdrs tmo kw w) = Inr r2)"
  by (simp add: result_send_request error_response_def HTTP_500_INTERNAL_SERVER_ERROR_def
           split: http_outcome.splits)

theorem send_request_never_raises_witness:
  "result (send_request demo_env demo_client ''POST'' None None [''url'' \<mapsto> ''x''] world0)
     = Inr \<lparr>status_code = 500, resp_text = []\<rparr> \<and>
   result (send_request demo_env demo_client ''POST'' None None [''data'' \<mapsto> ''{}'']
             (world0\<lparr>wire := [create_call demo_env demo_client (demo_row ''alice''),
                                create_call demo_env demo_client (demo_row ''bob'')]\<rparr>))
     = Inr \<lparr>status_code = 500, resp_text = []\<rparr> \<and>
   result (send_request demo_env demo_client ''POST'' None None [''data'' \<mapsto> ''{}'']
             (world0\<lparr>wire := [create_call demo_env demo_client (demo_row ''alice'')]\<rparr>))
     = Inr \<lparr>status_code = 500, resp_text = []\<rparr> \<and>
   result (send_request demo_env demo_client ''POST'' None None [''data'' \<mapsto> ''{}''] world0)
     = Inr \<lparr>status_code = 201, resp_text = ''{}''\<rparr>"
proof -
  have dup: "list_ex (\<lambda>k. [''url'' \<mapsto> ''x''] k \<noteq> None) explicit_keywords"
    by (simp add: explicit_keywords_def)
  have nodup: "\<not> list_ex (\<lambda>k. [''data'' \<mapsto> ''{}''] k \<noteq> None) explicit_keywords"
    by (simp add: explicit_keywords_def)
  have raised:
    "server demo_env
       (wire (world0\<lparr>wire := [create_call demo_env demo_client (demo_row ''alice''),
                               create_call demo_env demo_client (demo_row ''bob'')]\<rparr>))
       (req_info demo_client ''POST'' None None [''data'' \<mapsto> ''{}'']) = Raised Timeout"
    by (simp add: demo_env_def demo_server_def)
  have rejected:
    "server demo_env
       (wire (world0\<lparr>wire := [create_call demo_env demo_client (demo_row ''alice'')]\<rparr>))
       (req_info demo_client ''POST'' None None [''data'' \<mapsto> ''{}''])
     = Responded \<lparr>status_code = 400, resp_text = ''[]''\<rparr>"
    by (simp add: demo_env_def demo_server_def)
  have created:
    "server demo_env (wire world0) (req_info demo_client ''POST'' None None [''data'' \<mapsto> ''{}''])
     = Responded \<lparr>status_code = 201, resp_text = ''{}''\<rparr>"
    by (simp add: demo_env_def demo_server_def world0_def)
  have e500: "error_response = \<lparr>status_code = 500, resp_text = []\<rparr>"
    by (simp add: error_response_def HTTP_500_INTERNAL_SERVER_ERROR_def)
  from send_request_never_raises
         [where e = demo_env and self = demo_client and meth = "''POST''" and hdrs = None
            and tmo = None and kw = "[''url'' \<mapsto> ''x'']" and w = world0] dup
  have 1: "result (send_request demo_env demo_client ''POST'' None None [''url'' \<mapsto> ''x''] world0)
             = Inr error_response" by blast
  from send_request_never_raises
         [where e = demo_env and self = demo_client and meth = "''POST''" and hdrs = None
            and tmo = None and kw = "[''data'' \<mapsto> ''{}'']" and exc = Timeout
            and w = "world0\<lparr>wire := [create_call demo_env demo_client (demo_row ''alice''),
                                     create_call demo_env demo_client (demo_row ''bob'')]\<rparr>"] raised
  have 2: "result (send_request demo_env demo_client ''POST'' None None [''data'' \<mapsto> ''{}'']
             (world0\<lparr>wire := [create_call demo_env demo_client (demo_row ''alice''),
                                create_call demo_env demo_client (demo_row ''bob'')]\<rparr>))
             = Inr error_response" by blast
  from send_request_never_raises
         [where e = demo_env and self = demo_client and meth = "''POST''" and hdrs = None
            and tmo = None and kw = "[''data'' \<mapsto> ''{}'']"
            and ?r4.0 = "\<lparr>status_code = 400, resp_text = ''[]''\<rparr>"
            and w = "world0\<lparr>wire := [create_call demo_env demo_client (demo_row ''alice'')]\<rparr>"]
       rejected
  have 3: "result (send_request demo_env demo_client ''POST'' None None [''data'' \<mapsto> ''{}'']
             (world0\<lparr>wire := [create_call demo_env demo_client (demo_row ''alice'')]\<rparr>))
             = Inr error_response" by simp
  from send_request_never_raises
         [where e = demo_env and self = demo_client and meth = "''POST''" and hdrs = None
            and tmo = None and kw = "[''data'' \<mapsto> ''{}'']"
            and ?r2.0 = "\<lparr>status_code = 201, resp_text = ''{}''\<rparr>" and w = world0]
       created nodup
  have 4: "result (send_request demo_env demo_client ''POST'' None None [''data'' \<mapsto> ''{}''] world0)
             = Inr \<lparr>status_code = 201, resp_text = ''{}''\<rparr>" by simp
  from 1 2 3 4 show ?thesis by (simp add: e500)
qed

text \<open>
  C10. A completed response is replaced by the synthetic one only when its status code is
  400 or more: a response with a status code below 400, a 3xx such as 304 included, is
  returned as it came.
\<close>

theorem below_400_returned_unchanged:
  "\<not> list_ex (\<lambda>k. kw k \<noteq> None) explicit_keywords \<Longrightarrow>
   server e (wire w) (req_info self meth hdrs tmo kw) = Responded r \<Longrightarrow>
   (status_code r < 400 \<longrightarrow> result (send_request e self meth hdrs tmo kw w) = Inr r) \<and>
   (result (send_request e self meth hdrs tmo kw w) \<noteq> Inr r \<longrightarrow> 400 \<le> status_code r)"
  by (simp add: result_send_request)

theorem below_400_returned_unchanged_witness:
  "result (send_request demo_env demo_client ''POST'' None None [''data'' \<mapsto> ''{}'']
             (world0\<lparr>wire := [create_call demo_env demo_client (demo_row ''alice''),
                                create_call demo_env demo_client (demo_row ''bob''),
                                create_call demo_env demo_client (demo_row ''carol'')]\<rparr>))
     = Inr \<lparr>status_code = 304, resp_text = []\<rparr> \<and>
   result (send_request demo_env demo_client ''POST'' None None [''data'' \<mapsto> ''{}'']
             (world0\<lparr>wire := [create_call demo_env demo_client (demo_row ''alice'')]\<rparr>))
     \<noteq> Inr \<lparr>status_code = 400, resp_text = ''[]''\<rparr> \<and>
   (400::int) \<le> status_code \<lparr>status_code = 400, resp_text = ''[]''\<rparr>"
proof -
  have nodup: "\<not> list_ex (\<lambda>k. [''data'' \<mapsto> ''{}''] k \<noteq> None) explicit_keywords"
    by (simp add: explicit_keywords_def)
  have unchanged:
    "server demo_env
       (wire (world0\<lparr>wire := [create_call demo_env demo_client (demo_row ''alice''),
                               create_call demo_env demo_client (demo_row ''bob''),
                               create_call demo_env demo_client (demo_row ''carol'')]\<rparr>))
       (req_info demo_client ''POST'' None None [''data'' \<mapsto> ''{}''])
     = Responded \<lparr>status_code = 304, resp_text = []\<rparr>"
    by (simp add: demo_env_def demo_server_def)
  have rejected:
    "server demo_env
       (wire (world0\<lparr>wire := [create_call demo_env demo_client (demo_row ''alice'')]\<rparr>))
       (req_info demo_client ''POST'' None None [''data'' \<mapsto> ''{}''])
     = Responded \<lparr>status_code = 400, resp_text = ''[]''\<rparr>"
    by (simp add: demo_env_def demo_server_def)
  have differs:
    "result (send_request demo_env demo_client ''POST'' None None [''data'' \<mapsto> ''{}'']
               (world0\<lparr>wire := [create_call demo_env demo_client (demo_row ''alice'')]\<rparr>))
       \<noteq> Inr \<lparr>status_code = 400, resp_text = ''[]''\<rparr>"
    using nodup rejected
    by (simp add: result_send_request error_response_def HTTP_500_INTERNAL_SERVER_ERROR_def)
  from below_400_returned_unchanged [OF nodup unchanged]
  have 1: "result (send_request demo_env demo_client ''POST'' None None [''data'' \<mapsto> ''{}'']
             (world0\<lparr>wire := [create_call demo_env demo_client (demo_row ''alice''),
                                create_call demo_env demo_client (demo_row ''bob''),
                                create_call demo_env demo_client (demo_row ''carol'')]\<rparr>))
     = Inr \<lparr>status_code = 304, resp_text = []\<rparr>" by simp
  from below_400_returned_unchanged [OF nodup rejected] differs
  have 2: "(400::int) \<le> status_code \<lparr>status_code = 400, resp_text = ''[]''\<rparr>" by blast
  from 1 differs 2 show ?thesis by blast
qed

text \<open>
  C9. The client object is the same after every call of send_request, get, post, patch and
  composite_request: its url and its base headers are not written.
\<close>

theorem client_read_only:
  "self_after (send_request e self meth hdrs tmo kw w) = self \<and>
   self_after (get e self hdrs tmo kw w) = self \<and>
   self_after (post e self hdrs tmo kw w) = self \<and>
   self_after (patch e self hdrs tmo kw w) = self \<and>
   self_after (composite_request e self composite_data w) = self"
  by (simp add: self_after_send_request self_after_forward get_def post_def patch_def
        composite_request_def Let_def)

subsection \<open>composite_request\<close>

text \<open>
  C2. What composite_request does for the input {"a": 1}: the url it passes to post
  travels in kwargs down to requests.request, which already gets url=self.url, so the call
  raises TypeError inside the try block. The value is the synthetic response with status
  500 and no request reaches the composite endpoint.
\<close>

theorem composite_request_sends_nothing:
  "result (composite_request e self (JObj [(''a'', JInt 1)]) w) = Inr error_response \<and>
   wire (world_after (composite_request e self (JObj [(''a'', JInt 1)]) w)) = wire w"
  by (simp add: composite_request_def Let_def post_def forward_def result_send_request
        wire_send_request explicit_keywords_def)

subsection \<open>parse_json_body\<close>




section \<open>Properties of the importer\<close>

subsection \<open>Auxiliary facts\<close>

lemma lookup_columns_complete:
  "list_all (\<lambda>k. row k \<noteq> None) ks \<Longrightarrow>
   lookup_columns row ks = Inr (map (\<lambda>k. (k, row_get row k JNull)) ks)"
  by (induction ks) (auto simp: row_get_def)


lemma user_record_complete:
  "list_all (\<lambda>k. row k \<noteq> None) required_columns \<Longrightarrow> user_record row = Inr (record_of row)"
  by (simp add: user_record_def record_of_def lookup_columns_complete)


lemma post_data:
  "post e sf None None [''data'' \<mapsto> d] w = send_request e sf ''POST'' None None [''data'' \<mapsto> d] w"
  by (simp add: post_def forward_def)

lemma create_call_req_info:
  "req_info sf ''POST'' None None [''data'' \<mapsto> json_dumps e (record_of row)] = create_call e sf row"
  by (simp add: req_info_def create_call_def)

lemma username_present:
  "list_all (\<lambda>k. row k \<noteq> None) required_columns \<Longrightarrow> row ''Username'' \<noteq> None"
  by (simp add: required_columns_def)

lemma process_row_complete:
  assumes "list_all (\<lambda>k. row k \<noteq> None) required_columns"
  shows "fst (process_row e row (sf, w)) = sf"
    and "wire (snd (process_row e row (sf, w))) = wire w @ [create_call e sf row]"
  using username_present [OF assms]
  by (auto simp: process_row_def user_record_complete [OF assms] post_data Let_def
        self_after_send_request wire_send_request explicit_keywords_def create_call_req_info
        result_send_request print_failed_def
        split: sum.splits option.splits http_outcome.splits)

lemma for_rows_complete:
  "list_all (\<lambda>row. list_all (\<lambda>k. row k \<noteq> None) required_columns) rows \<Longrightarrow>
   fst (for_rows e rows (sf, w)) = sf \<and>
   wire (snd (for_rows e rows (sf, w))) = wire w @ map (create_call e sf) rows"
proof (induction rows arbitrary: w)
  case Nil
  then show ?case by simp
next
  case (Cons row rows)
  obtain sf' w' where step: "process_row e row (sf, w) = (sf', w')"
    by (cases "process_row e row (sf, w)")
  from Cons.prems have ok: "list_all (\<lambda>k. row k \<noteq> None) required_columns" by simp
  from process_row_complete [OF ok, of e sf w] step
  have "sf' = sf" and "wire w' = wire w @ [create_call e sf row]" by simp_all
  with Cons step show ?case by simp
qed



lemma logins_process_row: "logins (snd (process_row e row sw)) = logins (snd sw)"
  by (simp add: process_row_def Let_def print_failed_def post_def forward_def quiet_send_request
        split: sum.splits option.splits)

lemma logins_for_rows: "logins (snd (for_rows e rows sw)) = logins (snd sw)"
  by (induction rows arbitrary: sw) (simp_all add: logins_process_row)



lemma logins_create_users_from_csv:
  "logins (snd (create_users_from_csv e p w)) = Suc (logins w)"
  by (simp add: create_users_from_csv_def SalesforceRestApiClient_def Let_def logins_for_rows
        split: sum.splits option.splits)

subsection \<open>The loop over the rows\<close>

text \<open>
  C4. When the client has been constructed and every row of the sheet has all ten
  required columns, the importer returns normally and the requests it hands to the
  network are exactly the create calls of the rows, one POST for each row, in the order
  of the rows.
\<close>

theorem one_create_call_per_row:
  assumes "fst (SalesforceRestApiClient e ''/services/data/v50.0/sobjects/User'' None w) = Inr sf"
    and "files e csv_file_path = Some rows"
    and "list_all (\<lambda>row. list_all (\<lambda>k. row k \<noteq> None) required_columns) rows"
  shows "fst (create_users_from_csv e csv_file_path w) = Inr () \<and>
         wire (snd (create_users_from_csv e csv_file_path w)) = wire w @ map (create_call e sf) rows"
  using assms for_rows_complete [OF assms(3), of e sf]
  by (simp add: create_users_from_csv_def Let_def SalesforceRestApiClient_def
        split: sum.splits)

theorem one_create_call_per_row_witness:
  "fst (create_users_from_csv demo_env_complete csv_path world0) = Inr () \<and>
   wire (snd (create_users_from_csv demo_env_complete csv_path world0)) =
     [create_call demo_env_complete demo_client (demo_row ''alice''),
      create_call demo_env_complete demo_client (demo_row ''bob'')]"
proof -
  have made:
    "fst (SalesforceRestApiClient demo_env_complete ''/services/data/v50.0/sobjects/User'' None world0)
       = Inr demo_client"
    by (simp add: SalesforceRestApiClient_def init_client_def demo_env_complete_def demo_env_def
          demo_settings_def demo_client_def lstrip_def Let_def)
  have sheet: "files demo_env_complete csv_path = Some [demo_row ''alice'', demo_row ''bob'']"
    by (simp add: demo_env_complete_def)
  have complete:
    "list_all (\<lambda>row. list_all (\<lambda>k. row k \<noteq> None) required_columns)
       [demo_row ''alice'', demo_row ''bob'']"
    by (simp add: demo_row_def required_columns_def)
  from one_create_call_per_row [OF made sheet complete] show ?thesis
    by (simp add: world0_def)
qed



text \<open>
  C6. When the login raises during the construction of the client, the importer ends with
  that exception. Only the login attempt has happened: no file has been opened, nothing
  has been sent and nothing has been printed.
\<close>

theorem authentication_failure_aborts:
  "init_client e = Inl exc \<Longrightarrow>
   create_users_from_csv e csv_file_path w = (Inl exc, w\<lparr>logins := Suc (logins w)\<rparr>)"
  by (simp add: create_users_from_csv_def SalesforceRestApiClient_def Let_def)

theorem authentication_failure_aborts_witness:
  "create_users_from_csv demo_env_locked csv_path world0 =
     (Inl SalesforceAuthenticationFailed,
      \<lparr>wire = [], stdout = [], logs = [], logins = 1, opened = []\<rparr>)"
proof -
  have refused: "init_client demo_env_locked = Inl SalesforceAuthenticationFailed"
    by (simp add: init_client_def demo_env_locked_def)
  from authentication_failure_aborts [OF refused, of csv_path world0] show ?thesis
    by (simp add: world0_def)
qed

text \<open>
  C1. What the importer prints when the server rejects one create call. In the concrete
  environment the server answers the second request, the one for bob, with status 400;
  send_request turns it into the synthetic response with status 500, nothing is raised in
  the loop body, and the line printed for bob is the success line. The rows before and
  after it are processed.
\<close>

theorem rejected_row_printed_as_success:
  "server demo_env [create_call demo_env demo_client (demo_row ''alice'')]
     (create_call demo_env demo_client (demo_row ''bob''))
     = Responded \<lparr>status_code = 400, resp_text = ''[]''\<rparr> \<and>
   stdout (snd (create_users_from_csv demo_env csv_path world0)) =
     [Successfully_created (JStr ''alice'') \<lparr>status_code = 201, resp_text = ''{}''\<rparr>,
      Successfully_created (JStr ''bob'') \<lparr>status_code = 500, resp_text = []\<rparr>,
      Failed_to_create (JStr ''carol'') (KeyError ''ProfileId'')]"
  by code_simp

section \<open>Properties of the entry point\<close>

text \<open>
  C7. When ENV is "prod" and the lower-cased answer is neither "yes" nor "y", main exits
  with status 1 after printing the environment and the abort line, and no login has been
  attempted. When ENV is not "prod", or the lower-cased answer is "yes" or "y", main
  prints the environment and the start line and runs the importer on the sheet; its
  outcome and its effects are those of the importer, and the login has been attempted.
\<close>

theorem production_gate:
  "(ENV e = Some ''prod'' \<and> lower (console_input e) \<noteq> ''yes'' \<and> lower (console_input e) \<noteq> ''y'' \<longrightarrow>
      main e w = (SystemExit 1, w\<lparr>stdout := stdout w @ [Print_env ''prod'', Print_aborted]\<rparr>) \<and>
      logins (snd (main e w)) = logins w) \<and>
   (ENV e \<noteq> Some ''prod'' \<or> lower (console_input e) = ''yes'' \<or> lower (console_input e) = ''y'' \<longrightarrow>
      main e w =
        (let ran = create_users_from_csv e csv_path
                     (w\<lparr>stdout := stdout w @
                        [Print_env (case ENV e of None \<Rightarrow> ''dev'' | Some v \<Rightarrow> v), Print_started]\<rparr>)
         in (case fst ran of Inl exc \<Rightarrow> Uncaught exc | Inr _ \<Rightarrow> Returned, snd ran)) \<and>
      logins (snd (main e w)) = Suc (logins w))"
  by (auto simp: main_def Let_def logins_create_users_from_csv
        split: option.splits sum.splits)

theorem production_gate_witness:
  "main demo_env world0 =
     (SystemExit 1,
      \<lparr>wire = [], stdout = [Print_env ''prod'', Print_aborted], logs = [], logins = 0, opened = []\<rparr>) \<and>
   logins (snd (main (demo_env\<lparr>console_input := ''YES''\<rparr>) world0)) = 1 \<and>
   logins (snd (main (demo_env\<lparr>ENV := None\<rparr>) world0)) = 1"
proof -
  have prod: "ENV demo_env = Some ''prod''"
    by (simp add: demo_env_def)
  have no: "lower (console_input demo_env) \<noteq> ''yes'' \<and> lower (console_input demo_env) \<noteq> ''y''"
    by (simp add: demo_env_def lower_def lower_char_def)
  have yes: "lower (console_input (demo_env\<lparr>console_input := ''YES''\<rparr>)) = ''yes''"
    by (simp add: lower_def lower_char_def)
  have dev: "ENV (demo_env\<lparr>ENV := None\<rparr>) \<noteq> Some ''prod''"
    by simp
  from production_gate [of demo_env world0] prod no
  have 1: "main demo_env world0 =
     (SystemExit 1,
      \<lparr>wire = [], stdout = [Print_env ''prod'', Print_aborted], logs = [], logins = 0, opened = []\<rparr>)"
    by (simp add: world0_def)
  from production_gate [of "demo_env\<lparr>console_input := ''YES''\<rparr>" world0] yes
  have "logins (snd (main (demo_env\<lparr>console_input := ''YES''\<rparr>) world0)) = Suc (logins world0)"
    by blast
  then have 2: "logins (snd (main (demo_env\<lparr>console_input := ''YES''\<rparr>) world0)) = 1"
    by (simp add: world0_def)
  from production_gate [of "demo_env\<lparr>ENV := None\<rparr>" world0] dev
  have "logins (snd (main (demo_env\<lparr>ENV := None\<rparr>) world0)) = Suc (logins world0)"
    by blast
  then have 3: "logins (snd (main (demo_env\<lparr>ENV := None\<rparr>) world0)) = 1"
    by (simp add: world0_def)
  from 1 2 3 show ?thesis by blast
qed

end
